theory Spec2Isabelle
  imports Main
begin

section \<open>Python strings\<close>

text \<open>
  A Python \<open>str\<close> is modelled as a HOL \<open>string\<close>: a list of characters with code
  points 0 to 255 (Latin-1). On that range \<open>str.isspace\<close> (which both \<open>\s\<close> and
  \<open>str.strip()\<close> use) holds for the code points listed in \<open>isspace\<close>, and lower-casing
  adds 32 to the upper-case letters.
\<close>

definition isspace :: "char \<Rightarrow> bool" where
  "isspace c \<longleftrightarrow> (of_char c :: nat) \<in> set [9, 10, 11, 12, 13, 28, 29, 30, 31, 32, 133, 160]"

definition lower :: "char \<Rightarrow> char" where
  "lower c =
     (let n = (of_char c :: nat)
      in if (65 \<le> n \<and> n \<le> 90) \<or> (192 \<le> n \<and> n \<le> 214) \<or> (216 \<le> n \<and> n \<le> 222)
         then char_of (n + 32) else c)"

text \<open>\<open>s.lstrip()\<close>, \<open>s.rstrip()\<close>, \<open>s.strip()\<close> and \<open>s.strip(chars)\<close>.\<close>

definition lstrip :: "string \<Rightarrow> string" where
  "lstrip s = dropWhile isspace s"

definition rstrip :: "string \<Rightarrow> string" where
  "rstrip s = rev (dropWhile isspace (rev s))"

definition strip :: "string \<Rightarrow> string" where
  "strip s = rstrip (lstrip s)"

definition strip_chars :: "string \<Rightarrow> string \<Rightarrow> string" where
  "strip_chars chars s =
     rev (dropWhile (\<lambda>c. c \<in> set chars) (rev (dropWhile (\<lambda>c. c \<in> set chars) s)))"

section \<open>Regular expressions: the fragment of \<open>re\<close> the program uses\<close>

text \<open>
  The patterns of the program are sequences of single characters (a literal, \<open>.\<close>,
  \<open>\s\<close>, a bracketed set), greedy stars over single characters, and the anchors \<open>^\<close> and
  \<open>$\<close>; one pattern is an alternation of two such sequences. \<open>x+\<close> is written \<open>x x*\<close>.
\<close>

datatype atom =
    Lit char        \<comment> \<open>a literal character\<close>
  | Dot             \<comment> \<open>\<open>.\<close>: any character but a newline\<close>
  | Space           \<comment> \<open>\<open>\s\<close>\<close>
  | Cls string      \<comment> \<open>\<open>[...]\<close>: one of the listed characters\<close>

datatype item =
    One atom
  | Star atom       \<comment> \<open>greedy \<open>*\<close>\<close>
  | Bol             \<comment> \<open>\<open>^\<close>\<close>
  | Eol             \<comment> \<open>\<open>$\<close>\<close>

type_synonym pattern = "item list list"   \<comment> \<open>the alternatives, in order\<close>

text \<open>\<open>ic\<close> is the flag \<open>re.IGNORECASE\<close>.\<close>

fun atom_match :: "bool \<Rightarrow> atom \<Rightarrow> char \<Rightarrow> bool" where
  "atom_match ic (Lit l) c = (if ic then lower c = lower l else c = l)"
| "atom_match ic Dot c = (c \<noteq> CHR 0x0A)"
| "atom_match ic Space c = isspace c"
| "atom_match ic (Cls cs) c = (c \<in> set cs)"

text \<open>
  \<open>match_here ic p bol s\<close> matches the sequence \<open>p\<close> at the head of \<open>s\<close> the way the
  backtracking matcher of \<open>re\<close> does: a star first takes as many characters as it can and
  gives them back one at a time. The result is the text left after the match. \<open>bol\<close>
  says that the position is the start of the whole string. Without \<open>re.MULTILINE\<close>,
  \<open>$\<close> matches at the end of the string and just before a newline that ends it.
\<close>

fun match_here :: "bool \<Rightarrow> item list \<Rightarrow> bool \<Rightarrow> string \<Rightarrow> string option" where
  "match_here ic [] bol s = Some s"
| "match_here ic (Bol # r) bol s = (if bol then match_here ic r bol s else None)"
| "match_here ic (Eol # r) bol s =
     (if s = [] \<or> s = [CHR 0x0A] then match_here ic r bol s else None)"
| "match_here ic (One a # r) bol [] = None"
| "match_here ic (One a # r) bol (c # s) =
     (if atom_match ic a c then match_here ic r False s else None)"
| "match_here ic (Star a # r) bol [] = match_here ic r bol []"
| "match_here ic (Star a # r) bol (c # s) =
     (if atom_match ic a c
      then (case match_here ic (Star a # r) False s of
              Some t \<Rightarrow> Some t
            | None \<Rightarrow> match_here ic r bol (c # s))
      else match_here ic r bol (c # s))"

fun match_alt :: "bool \<Rightarrow> pattern \<Rightarrow> bool \<Rightarrow> string \<Rightarrow> string option" where
  "match_alt ic [] bol s = None"
| "match_alt ic (p # ps) bol s =
     (case match_here ic p bol s of Some t \<Rightarrow> Some t | None \<Rightarrow> match_alt ic ps bol s)"

text \<open>
  \<open>re.sub(pattern, repl, s)\<close>: the leftmost match is replaced and the scan goes on after
  it. Every pattern of the program holds a character that must be present, so none
  matches the empty string (\<open>match_here_consumes\<close> below) and the rule of \<open>re.sub\<close> for
  empty matches never applies; here a match that consumes nothing counts as no match.
\<close>

function re_sub_from :: "bool \<Rightarrow> pattern \<Rightarrow> string \<Rightarrow> bool \<Rightarrow> string \<Rightarrow> string" where
  "re_sub_from ic p repl bol [] = []"
| "re_sub_from ic p repl bol (c # s) =
     (case match_alt ic p bol (c # s) of
        None \<Rightarrow> c # re_sub_from ic p repl False s
      | Some t \<Rightarrow>
          if length t < length (c # s) then repl @ re_sub_from ic p repl False t
          else c # re_sub_from ic p repl False s)"
  by pat_completeness auto
termination
  by (relation "measure (\<lambda>(ic, p, repl, bol, s). length s)") auto

definition re_sub :: "bool \<Rightarrow> pattern \<Rightarrow> string \<Rightarrow> string \<Rightarrow> string" where
  "re_sub ic p repl s = re_sub_from ic p repl True s"

definition lit :: "string \<Rightarrow> item list" where
  "lit w = map (\<lambda>c. One (Lit c)) w"

section \<open>\<open>src/app/utils.py\<close>\<close>

text \<open>
  \<open>patterns_to_remove\<close> of \<open>clean_track_title\<close>, in the order of the source: the eight
  broad patterns such as \<open>\[.*Official.*Music.*Video.*\]\<close>, the thirty-two bracketed and
  parenthesised phrases, the two prefixes and the two dash patterns.
\<close>

definition broad :: "char \<Rightarrow> string list \<Rightarrow> char \<Rightarrow> item list" where
  "broad l ws r = One (Lit l) # concat (map (\<lambda>w. Star Dot # lit w) ws) @ [Star Dot, One (Lit r)]"

definition phrase :: "char \<Rightarrow> string \<Rightarrow> char \<Rightarrow> item list" where
  "phrase l w r = One (Lit l) # lit w @ [One (Lit r)]"

definition specific_phrases :: "string list" where
  "specific_phrases =
     [''Official Music Video'', ''Official Video'', ''Music Video'', ''Official Audio'',
      ''Audio'', ''Official'', ''HD'', ''4K'', ''Lyric Video'', ''Lyrics'', ''Visualizer'',
      ''Live'', ''Acoustic'', ''Remix'', ''Extended Mix'', ''Radio Edit'']"

definition patterns_to_remove :: "item list list" where
  "patterns_to_remove =
     [broad CHR ''['' [''Official'', ''Music'', ''Video''] CHR '']'',
      broad CHR ''['' [''Official'', ''Video''] CHR '']'',
      broad CHR ''['' [''Music'', ''Video''] CHR '']'',
      broad CHR ''['' [''Official'', ''Audio''] CHR '']'',
      broad CHR ''('' [''Official'', ''Music'', ''Video''] CHR '')'',
      broad CHR ''('' [''Official'', ''Video''] CHR '')'',
      broad CHR ''('' [''Music'', ''Video''] CHR '')'',
      broad CHR ''('' [''Official'', ''Audio''] CHR '')'']
     @ map (\<lambda>w. phrase CHR ''['' w CHR '']'') specific_phrases
     @ map (\<lambda>w. phrase CHR ''('' w CHR '')'') specific_phrases
     @ [Bol # lit ''Official'' @ [Star Space, One (Lit CHR ''-''), Star Space],
        Bol # lit ''Official:'' @ [Star Space],
        [Star Space, One (Lit CHR ''-''), Star Space, Eol],
        [Bol, Star Space, One (Lit CHR ''-''), Star Space]]"

text \<open>
  The value of \<open>cleaned\<close> in \<open>clean_track_title\<close> just before the final length check:
  every pattern removed in turn (ignoring case), whitespace runs collapsed and the ends
  trimmed, doubled dashes joined, a leading or trailing dash removed.
\<close>

text \<open>\<open>re.sub(r'\s+', ' ', s)\<close>.\<close>

definition collapse_whitespace :: "string \<Rightarrow> string" where
  "collapse_whitespace s = re_sub False [[One Space, Star Space]] '' '' s"

definition cleaned_before_check :: "string \<Rightarrow> string" where
  "cleaned_before_check title =
     (let cleaned = foldl (\<lambda>cleaned p. re_sub True [p] [] cleaned) title patterns_to_remove;
          cleaned = strip (collapse_whitespace cleaned);
          cleaned = re_sub False
                      [[Star Space, One (Lit CHR ''-''), Star Space, One (Lit CHR ''-''), Star Space]]
                      '' - '' cleaned;
          cleaned = re_sub False
                      [[Bol, One (Lit CHR ''-''), Star Space], [Star Space, One (Lit CHR ''-''), Eol]]
                      [] cleaned
      in cleaned)"

definition clean_track_title :: "string \<Rightarrow> string" where
  "clean_track_title title =
     (if title = [] then ''Unknown Track''
      else let cleaned = cleaned_before_check title;
               cleaned = (if cleaned = [] \<or> length (strip cleaned) < 3 then title else cleaned)
           in strip cleaned)"


definition sanitize_filename :: "string \<Rightarrow> string" where
  "sanitize_filename filename =
     (let invalid_chars = [CHR ''<'', CHR ''>'', CHR '':'', CHR 0x22, CHR ''/'', CHR 0x5C,
                           CHR ''|'', CHR ''?'', CHR ''*''];
          sanitized = re_sub False [[One (Cls invalid_chars)]] ''_'' filename;
          sanitized = re_sub False [[One (Lit CHR ''_''), Star (Lit CHR ''_'')]] ''_'' sanitized;
          sanitized = strip (strip_chars ''_'' sanitized)
      in if sanitized = [] then ''unknown_file'' else sanitized)"

section \<open>\<open>src/app/downloader.py\<close>\<close>

subsection \<open>The output directory\<close>

text \<open>
  A directory entry as \<open>_find_downloaded_file\<close> reads it: its name, \<open>is_file()\<close> and
  \<open>stat().st_mtime\<close> (in seconds). A listing of \<open>None\<close> is an \<open>iterdir()\<close> that raises.
\<close>

record dir_entry =
  file_name :: string
  is_file :: bool
  st_mtime :: int

text \<open>\<open>Path.suffix\<close>: the name from its last dot on, unless that dot is first or last.\<close>

fun rfind :: "char \<Rightarrow> string \<Rightarrow> nat option" where
  "rfind x [] = None"
| "rfind x (c # s) =
     (case rfind x s of Some i \<Rightarrow> Some (Suc i) | None \<Rightarrow> if c = x then Some 0 else None)"

definition path_suffix :: "string \<Rightarrow> string" where
  "path_suffix name =
     (case rfind CHR ''.'' name of
        None \<Rightarrow> []
      | Some i \<Rightarrow> if 0 < i \<and> i + 1 < length name then drop i name else [])"

definition audio_extensions :: "string list" where
  "audio_extensions =
     [''.mp3'', ''.m4a'', ''.wav'', ''.flac'', ''.ogg'', ''.webm'', ''.opus'', ''.aac'']"

definition web_formats :: "string list" where
  "web_formats = [''.mhtml'', ''.html'', ''.htm'', ''.part'', ''.tmp'', ''.ytdl'']"

text \<open>\<open>max(files, key=lambda f: f.stat().st_mtime)\<close>: the first of the most recent.\<close>

fun latest :: "dir_entry \<Rightarrow> dir_entry list \<Rightarrow> dir_entry" where
  "latest best [] = best"
| "latest best (f # fs) = latest (if st_mtime best < st_mtime f then f else best) fs"

definition find_downloaded_file :: "dir_entry list option \<Rightarrow> int \<Rightarrow> string \<Rightarrow> dir_entry option" where
  "find_downloaded_file listing now video_title =
     (case listing of
        None \<Rightarrow> None
      | Some all_files \<Rightarrow>
          (let audio_files =
                 filter (\<lambda>f. is_file f
                            \<and> map lower (path_suffix (file_name f)) \<notin> set web_formats
                            \<and> map lower (path_suffix (file_name f)) \<in> set audio_extensions)
                   all_files
           in case audio_files of
                f # fs \<Rightarrow> Some (latest f fs)
              | [] \<Rightarrow>
                  (let recent_files =
                         filter (\<lambda>f. is_file f
                                    \<and> map lower (path_suffix (file_name f)) \<notin> set web_formats
                                    \<and> now - 60 < st_mtime f)
                           all_files
                   in case recent_files of
                        f # fs \<Rightarrow> Some (latest f fs)
                      | [] \<Rightarrow> None)))"

subsection \<open>The search and download cascade\<close>

text \<open>
  The media-fetch collaborator (yt-dlp), the output directory and the clock are outside
  the program. They are modelled as oracles that answer a call from the calls made so
  far, so a second call with the same arguments may answer differently.
\<close>

datatype ydl_call =
    ExtractInfo string           \<comment> \<open>\<open>extract_info(url, download=False)\<close>\<close>
  | Download string string       \<comment> \<open>\<open>download([url])\<close> with the output template\<close>

record entry =
  entry_title :: string                  \<comment> \<open>\<open>entry.get('title', 'Unknown')\<close>\<close>
  webpage_url :: string                  \<comment> \<open>\<open>entry.get('webpage_url', '')\<close>\<close>
  formats :: "string option list"        \<comment> \<open>\<open>f.get('acodec')\<close> of each format\<close>

datatype info_result =
    Raises                \<comment> \<open>the call raises\<close>
  | Info "entry list"     \<comment> \<open>the entries; \<open>[]\<close> also stands for no info and no \<open>'entries'\<close> key\<close>

record ydl_env =
  download_path :: string
  extract_info_result :: "ydl_call list \<Rightarrow> string \<Rightarrow> info_result"
  download_ok :: "ydl_call list \<Rightarrow> string \<Rightarrow> string \<Rightarrow> bool"   \<comment> \<open>\<open>False\<close>: it raises\<close>
  directory :: "ydl_call list \<Rightarrow> dir_entry list option"
  clock :: "ydl_call list \<Rightarrow> int"

definition search_variations :: "string \<Rightarrow> string list" where
  "search_variations search_query =
     [''ytsearch1:'' @ search_query,
      ''ytsearch1:'' @ search_query @ '' audio'',
      ''ytsearch1:'' @ search_query @ '' official'',
      ''ytsearch1:'' @ search_query @ '' music'']"

text \<open>
  One pass through the body of the loop of \<open>search_and_download\<close>: \<open>Some\<close> is its
  \<open>return\<close>, \<open>None\<close> a \<open>continue\<close> (also the one of the \<open>except\<close> clause).
\<close>

definition attempt ::
  "ydl_env \<Rightarrow> ydl_call list \<Rightarrow> string option \<Rightarrow> string \<Rightarrow> string option \<times> ydl_call list" where
  "attempt env h preferred_filename search_url =
     (let h1 = h @ [ExtractInfo search_url]
      in case extract_info_result env h search_url of
           Raises \<Rightarrow> (None, h1)
         | Info [] \<Rightarrow> (None, h1)
         | Info (entry # _) \<Rightarrow>
             (let audio_formats = filter (\<lambda>acodec. acodec \<noteq> Some ''none'') (formats entry)
              in if audio_formats = [] then (None, h1)
                 else
                   (let final_filename =
                          (case preferred_filename of
                             Some (c # n) \<Rightarrow> sanitize_filename (c # n)
                           | _ \<Rightarrow> sanitize_filename (clean_track_title (entry_title entry)));
                        outtmpl = download_path env @ ''/'' @ final_filename @ ''.%(ext)s'';
                        h2 = h1 @ [Download outtmpl (webpage_url entry)]
                    in if \<not> download_ok env h1 outtmpl (webpage_url entry) then (None, h2)
                       else
                         (case find_downloaded_file (directory env h2) (clock env h2) final_filename of
                            Some f \<Rightarrow> (Some (download_path env @ ''/'' @ file_name f), h2)
                          | None \<Rightarrow> (None, h2)))))"

fun try_variations ::
  "ydl_env \<Rightarrow> ydl_call list \<Rightarrow> string option \<Rightarrow> string list \<Rightarrow> string option \<times> ydl_call list" where
  "try_variations env h preferred_filename [] = (None, h)"
| "try_variations env h preferred_filename (search_url # rest) =
     (case attempt env h preferred_filename search_url of
        (Some downloaded_file, h') \<Rightarrow> (Some downloaded_file, h')
      | (None, h') \<Rightarrow> try_variations env h' preferred_filename rest)"

definition search_and_download ::
  "ydl_env \<Rightarrow> ydl_call list \<Rightarrow> string \<Rightarrow> string option \<Rightarrow> string option \<times> ydl_call list" where
  "search_and_download env h search_query preferred_filename =
     try_variations env h preferred_filename (search_variations search_query)"

text \<open>The searches among the calls made.\<close>

fun searches :: "ydl_call list \<Rightarrow> string list" where
  "searches [] = []"
| "searches (ExtractInfo url # h) = url # searches h"
| "searches (Download outtmpl url # h) = searches h"

section \<open>\<open>src/app/spotify_watcher.py\<close>\<close>

text \<open>
  A track as the catalog returns it. An empty id stands for a missing id (in Python
  \<open>None\<close> and the empty string are both false). \<open>track_data\<close> is the dictionary that
  \<open>get_playlist_tracks\<close> builds for each playlist item.
\<close>

record spotify_track =
  ti_id :: string
  ti_name :: string
  ti_artists :: "string list"
  ti_album :: string
  ti_duration_ms :: nat
  ti_uri :: string

record playlist_item =
  item_track :: "spotify_track option"
  item_added_at :: string

record track_data =
  track_info :: spotify_track
  added_at :: string
  playlist_position :: nat

datatype client = SpotifyClient

record watcher =
  spotify_client :: "client option"
  processed_tracks :: "string set"

record sync_stats =
  new_tracks :: nat
  downloaded :: nat
  failed :: nat

text \<open>
  The calls the watcher makes to its collaborators: the catalog (listing the playlist,
  removing a track) and the downloader. As above, each answer is a function of the calls
  made before. \<open>format_search_query\<close> only builds the text of the query; the watcher
  passes its result on unread, and it is a parameter here.
\<close>

datatype spotify_call =
    PlaylistTracks                     \<comment> \<open>the paginated listing of the playlist\<close>
  | PlaylistRemove string              \<comment> \<open>\<open>playlist_remove_all_occurrences_of_items\<close>, with the URI\<close>
  | SearchAndDownload string string    \<comment> \<open>\<open>downloader.search_and_download(query, filename)\<close>\<close>

record spotify_env =
  format_search_query :: "spotify_track \<Rightarrow> string"
  playlist_pages :: "spotify_call list \<Rightarrow> playlist_item list list option"   \<comment> \<open>\<open>None\<close>: it raises\<close>
  remove_ok :: "spotify_call list \<Rightarrow> string \<Rightarrow> bool"                        \<comment> \<open>\<open>False\<close>: it raises\<close>
  download_result :: "spotify_call list \<Rightarrow> string \<Rightarrow> string \<Rightarrow> string option"

fun join :: "string \<Rightarrow> string list \<Rightarrow> string" where
  "join sep [] = []"
| "join sep [x] = x"
| "join sep (x # y # ys) = x @ sep @ join sep (y # ys)"

fun collect_items :: "track_data list \<Rightarrow> playlist_item list \<Rightarrow> track_data list" where
  "collect_items tracks [] = tracks"
| "collect_items tracks (item # items) =
     (case item_track item of
        None \<Rightarrow> collect_items tracks items
      | Some t \<Rightarrow>
          if ti_id t = [] then collect_items tracks items
          else collect_items
                 (tracks @ [\<lparr>track_info = t, added_at = item_added_at item,
                             playlist_position = length tracks\<rparr>]) items)"

definition get_playlist_tracks ::
  "spotify_env \<Rightarrow> watcher \<Rightarrow> spotify_call list \<Rightarrow> track_data list \<times> spotify_call list" where
  "get_playlist_tracks env self h =
     (if spotify_client self = None then ([], h)
      else case playlist_pages env h of
             None \<Rightarrow> ([], h @ [PlaylistTracks])
           | Some pages \<Rightarrow> (collect_items [] (concat pages), h @ [PlaylistTracks]))"

definition get_new_tracks ::
  "spotify_env \<Rightarrow> watcher \<Rightarrow> spotify_call list \<Rightarrow> track_data list \<times> spotify_call list" where
  "get_new_tracks env self h =
     (case get_playlist_tracks env self h of
        (all_tracks, h') \<Rightarrow>
          (filter (\<lambda>track_data. ti_id (track_info track_data) \<notin> processed_tracks self) all_tracks,
           h'))"

definition remove_track_from_playlist ::
  "spotify_env \<Rightarrow> watcher \<Rightarrow> spotify_call list \<Rightarrow> string \<Rightarrow> bool \<times> spotify_call list" where
  "remove_track_from_playlist env self h track_id =
     (if spotify_client self = None then (False, h)
      else (let track_uri = ''spotify:track:'' @ track_id
            in (remove_ok env h track_uri, h @ [PlaylistRemove track_uri])))"

text \<open>
  \<open>process_track\<close>. The \<open>except\<close> clause of the source is not reached: the downloader
  and the removal catch their own exceptions, and the fields read are always present.
\<close>

definition spotify_filename :: "spotify_track \<Rightarrow> string" where
  "spotify_filename info = join '', '' (ti_artists info) @ '' - '' @ ti_name info"

definition process_track ::
  "spotify_env \<Rightarrow> watcher \<Rightarrow> spotify_call list \<Rightarrow> track_data
     \<Rightarrow> bool \<times> watcher \<times> spotify_call list" where
  "process_track env self h track_data =
     (let info = track_info track_data;
          track_id = ti_id info;
          search_query = format_search_query env info;
          filename = spotify_filename info;
          downloaded_file = download_result env h search_query filename;
          h1 = h @ [SearchAndDownload search_query filename]
      in case downloaded_file of
           Some path \<Rightarrow>
             (case remove_track_from_playlist env self h1 track_id of
                (True, h2) \<Rightarrow>
                  (True, self\<lparr>processed_tracks := insert track_id (processed_tracks self)\<rparr>, h2)
              | (False, h2) \<Rightarrow> (False, self, h2))
         | None \<Rightarrow>
             (False, self\<lparr>processed_tracks := insert track_id (processed_tracks self)\<rparr>, h1))"

fun process_new_tracks ::
  "spotify_env \<Rightarrow> track_data list \<Rightarrow> sync_stats \<times> watcher \<times> spotify_call list
     \<Rightarrow> sync_stats \<times> watcher \<times> spotify_call list" where
  "process_new_tracks env [] acc = acc"
| "process_new_tracks env (track_data # rest) (stats, self, h) =
     (case process_track env self h track_data of
        (True, self', h') \<Rightarrow>
          process_new_tracks env rest (stats\<lparr>downloaded := downloaded stats + 1\<rparr>, self', h')
      | (False, self', h') \<Rightarrow>
          process_new_tracks env rest (stats\<lparr>failed := failed stats + 1\<rparr>, self', h'))"

definition sync_playlist ::
  "spotify_env \<Rightarrow> watcher \<Rightarrow> spotify_call list \<Rightarrow> sync_stats \<times> watcher \<times> spotify_call list" where
  "sync_playlist env self h =
     (let stats = \<lparr>new_tracks = 0, downloaded = 0, failed = 0\<rparr>
      in if spotify_client self = None then (stats, self, h)
         else case get_new_tracks env self h of
                (new, h') \<Rightarrow>
                  (let stats = stats\<lparr>new_tracks := length new\<rparr>
                   in if new = [] then (stats, self, h')
                      else process_new_tracks env new (stats, self, h')))"


section \<open>\<open>src/audio_fetcher/app/utils.py\<close>\<close>

text \<open>\<open>str(n)\<close> for a natural number, and the format \<open>{n:02d}\<close>.\<close>

fun str_nat :: "nat \<Rightarrow> string" where
  "str_nat n =
     (if n < 10 then [char_of (48 + n)] else str_nat (n div 10) @ [char_of (48 + n mod 10)])"

definition str_02d :: "nat \<Rightarrow> string" where
  "str_02d n = (if n < 10 then CHR ''0'' # str_nat n else str_nat n)"

definition format_duration :: "nat \<Rightarrow> string" where
  "format_duration seconds =
     (if seconds < 60 then ''0:'' @ str_02d seconds
      else let minutes = seconds div 60;
               remaining_seconds = seconds mod 60
           in if minutes < 60 then str_nat minutes @ '':'' @ str_02d remaining_seconds
              else let hours = minutes div 60;
                       remaining_minutes = minutes mod 60
                   in str_nat hours @ '':'' @ str_02d remaining_minutes @ '':''
                      @ str_02d remaining_seconds)"

text \<open>The dictionary that \<open>extract_track_info\<close> returns.\<close>

record track =
  tr_title :: string
  tr_artist :: string
  tr_album :: string
  tr_duration :: string
  tr_id :: string
  tr_uri :: string

definition extract_track_info :: "spotify_track \<Rightarrow> track" where
  "extract_track_info t =
     \<lparr>tr_title = ti_name t,
      tr_artist = (if ti_artists t = [] then ''Unknown Artist'' else join '', '' (ti_artists t)),
      tr_album = ti_album t,
      tr_duration = format_duration (ti_duration_ms t div 1000),
      tr_id = ti_id t,
      tr_uri = ti_uri t\<rparr>"

text \<open>
  \<open>get_safe_filename\<close>: reserved characters removed, whitespace runs turned into one
  underscore, dots and underscores trimmed at both ends, at most \<open>max_length\<close> characters.
\<close>

definition get_safe_filename :: "string \<Rightarrow> nat \<Rightarrow> string" where
  "get_safe_filename text max_length =
     (if text = [] then ''unknown''
      else let reserved = [CHR ''<'', CHR ''>'', CHR '':'', CHR 0x22, CHR ''/'', CHR 0x5C,
                           CHR ''|'', CHR ''?'', CHR ''*''];
               safe_name = re_sub False [[One (Cls reserved)]] [] text;
               safe_name = re_sub False [[One Space, Star Space]] ''_'' safe_name;
               safe_name = strip_chars ''._'' safe_name;
               safe_name = (if max_length < length safe_name
                            then rev (dropWhile (\<lambda>c. c \<in> set ''._'') (rev (take max_length safe_name)))
                            else safe_name)
           in if safe_name = [] then ''unknown'' else safe_name)"

section \<open>\<open>src/audio_fetcher/app/downloader.py\<close>\<close>

text \<open>
  This downloader runs yt-dlp with \<open>ignoreerrors\<close>, so an entry of the search result may be
  \<open>None\<close>, and it learns the files written from the progress hook: the download answers
  with the file names reported as finished, or raises.
\<close>

record af_entry =
  af_webpage_url :: "string option"       \<comment> \<open>\<open>None\<close>: the key is missing\<close>

datatype af_info_result =
    AfRaises
  | AfInfo "af_entry option list"         \<comment> \<open>\<open>[]\<close> also stands for no info and no \<open>'entries'\<close> key\<close>

record af_ydl_env =
  af_download_path :: string
  af_extract_info_result :: "ydl_call list \<Rightarrow> string \<Rightarrow> af_info_result"
  af_downloaded_files :: "ydl_call list \<Rightarrow> string \<Rightarrow> string \<Rightarrow> string list option"   \<comment> \<open>\<open>None\<close>: it raises\<close>

definition af_search_and_download_sync ::
  "af_ydl_env \<Rightarrow> ydl_call list \<Rightarrow> string \<Rightarrow> nat \<Rightarrow> string option \<times> ydl_call list" where
  "af_search_and_download_sync env h search_query max_results =
     (let search_url = ''ytsearch'' @ str_nat max_results @ '':'' @ search_query;
          safe_filename = get_safe_filename search_query 100;
          output_template = af_download_path env @ ''/'' @ safe_filename @ ''.%(ext)s'';
          h1 = h @ [ExtractInfo search_url]
      in case af_extract_info_result env h search_url of
           AfRaises \<Rightarrow> (None, h1)
         | AfInfo [] \<Rightarrow> (None, h1)
         | AfInfo (None # _) \<Rightarrow> (None, h1)
         | AfInfo (Some first_entry # _) \<Rightarrow>
             (case af_webpage_url first_entry of
                None \<Rightarrow> (None, h1)
              | Some url \<Rightarrow>
                  (let h2 = h1 @ [Download output_template url]
                   in case af_downloaded_files env h1 output_template url of
                        None \<Rightarrow> (None, h2)
                      | Some [] \<Rightarrow> (None, h2)
                      | Some (downloaded_file # _) \<Rightarrow> (Some downloaded_file, h2))))"

text \<open>
  \<open>search_and_download\<close> hands the work to \<open>_search_and_download_sync\<close> on the executor, with
  \<open>max_results = 1\<close>.
\<close>

definition af_search_and_download ::
  "af_ydl_env \<Rightarrow> ydl_call list \<Rightarrow> string \<Rightarrow> string option \<times> ydl_call list" where
  "af_search_and_download env h search_query = af_search_and_download_sync env h search_query 1"

section \<open>\<open>src/audio_fetcher/app/spotify_watcher.py\<close>\<close>

record af_watcher =
  af_spotify_client :: "client option"
  last_check :: "int option"
  af_processed_tracks :: "string set"
  failed_tracks :: "string set"

datatype af_call =
    AfPlaylistTracks                   \<comment> \<open>the paginated listing of the playlist\<close>
  | AfPlaylistRemove string            \<comment> \<open>\<open>playlist_remove_all_occurrences_of_items\<close>, with the URI\<close>
  | AfSearchAndDownload string         \<comment> \<open>\<open>downloader.search_and_download(query)\<close>\<close>

record af_env =
  af_format_search_query :: "string \<Rightarrow> string \<Rightarrow> string \<Rightarrow> string"   \<comment> \<open>artist, title, album\<close>
  af_playlist_pages :: "af_call list \<Rightarrow> playlist_item list list option"   \<comment> \<open>\<open>None\<close>: it raises\<close>
  af_remove_ok :: "af_call list \<Rightarrow> string \<Rightarrow> bool"                        \<comment> \<open>\<open>False\<close>: it raises\<close>
  af_download_result :: "af_call list \<Rightarrow> string \<Rightarrow> string option"
  af_now :: "af_call list \<Rightarrow> int"                                      \<comment> \<open>\<open>datetime.now()\<close>\<close>

text \<open>
  The paging loop of \<open>get_playlist_tracks\<close> stops at the first page without items. A
  missing client makes the first request raise, which the function catches.
\<close>

fun af_collect_pages :: "playlist_item list list \<Rightarrow> track list" where
  "af_collect_pages [] = []"
| "af_collect_pages (items # pages) =
     (if items = [] then []
      else map extract_track_info
             (filter (\<lambda>t. ti_id t \<noteq> []) (concat (map (\<lambda>item. case item_track item of
                                                                None \<Rightarrow> [] | Some t \<Rightarrow> [t]) items)))
           @ af_collect_pages pages)"

definition af_get_playlist_tracks ::
  "af_env \<Rightarrow> af_watcher \<Rightarrow> af_call list \<Rightarrow> track list \<times> af_call list" where
  "af_get_playlist_tracks env self h =
     (if af_spotify_client self = None then ([], h)
      else case af_playlist_pages env h of
             None \<Rightarrow> ([], h @ [AfPlaylistTracks])
           | Some pages \<Rightarrow> (af_collect_pages pages, h @ [AfPlaylistTracks]))"

definition af_remove_track_from_playlist ::
  "af_env \<Rightarrow> af_watcher \<Rightarrow> af_call list \<Rightarrow> string \<Rightarrow> bool \<times> af_call list" where
  "af_remove_track_from_playlist env self h track_uri =
     (if af_spotify_client self = None then (False, h)
      else (af_remove_ok env h track_uri, h @ [AfPlaylistRemove track_uri]))"

text \<open>
  \<open>process_track\<close>. As in the other watcher the \<open>except\<close> clause is not reached: both
  collaborators catch their own exceptions and every key read is present.
\<close>

definition af_search_query :: "af_env \<Rightarrow> track \<Rightarrow> string" where
  "af_search_query env track =
     af_format_search_query env (tr_artist track) (tr_title track) (tr_album track)"

definition af_process_track ::
  "af_env \<Rightarrow> af_watcher \<Rightarrow> af_call list \<Rightarrow> track \<Rightarrow> bool \<times> af_watcher \<times> af_call list" where
  "af_process_track env self h track =
     (let track_id = tr_id track;
          search_query = af_search_query env track;
          download_result = af_download_result env h search_query;
          h1 = h @ [AfSearchAndDownload search_query]
      in case download_result of
           Some path \<Rightarrow>
             (case af_remove_track_from_playlist env self h1 (tr_uri track) of
                (True, h2) \<Rightarrow>
                  (True, self\<lparr>af_processed_tracks := insert track_id (af_processed_tracks self)\<rparr>, h2)
              | (False, h2) \<Rightarrow>
                  (True, self\<lparr>af_processed_tracks := insert track_id (af_processed_tracks self)\<rparr>, h2))
         | None \<Rightarrow>
             (False, self\<lparr>failed_tracks := insert track_id (failed_tracks self)\<rparr>, h1))"

fun af_process_all ::
  "af_env \<Rightarrow> track list \<Rightarrow> af_watcher \<times> af_call list \<Rightarrow> af_watcher \<times> af_call list" where
  "af_process_all env [] acc = acc"
| "af_process_all env (track # rest) (self, h) =
     (case af_process_track env self h track of
        (ok, self', h') \<Rightarrow> af_process_all env rest (self', h'))"

definition af_new_tracks :: "af_watcher \<Rightarrow> track list \<Rightarrow> track list" where
  "af_new_tracks self tracks =
     filter (\<lambda>track. tr_id track \<notin> af_processed_tracks self \<and> tr_id track \<notin> failed_tracks self)
       tracks"

definition check_playlist_for_new_tracks ::
  "af_env \<Rightarrow> af_watcher \<Rightarrow> af_call list \<Rightarrow> af_watcher \<times> af_call list" where
  "check_playlist_for_new_tracks env self h =
     (if af_spotify_client self = None then (self, h)
      else case af_get_playlist_tracks env self h of
             (tracks, h') \<Rightarrow>
               if tracks = [] then (self, h')
               else let new = af_new_tracks self tracks
                    in if new = [] then (self, h')
                       else case af_process_all env new (self, h') of
                              (self', h'') \<Rightarrow> (self'\<lparr>last_check := Some (af_now env h'')\<rparr>, h''))"

definition failed_tracks_to_retry :: "af_watcher \<Rightarrow> track list \<Rightarrow> track list" where
  "failed_tracks_to_retry self current_tracks =
     (let current_track_ids = set (map tr_id current_tracks)
      in filter (\<lambda>track. tr_id track \<in> failed_tracks self \<and> tr_id track \<in> current_track_ids)
           current_tracks)"

definition retry_failed_tracks ::
  "af_env \<Rightarrow> af_watcher \<Rightarrow> af_call list \<Rightarrow> af_watcher \<times> af_call list" where
  "retry_failed_tracks env self h =
     (if failed_tracks self = {} then (self, h)
      else case af_get_playlist_tracks env self h of
             (current_tracks, h') \<Rightarrow>
               (let to_retry = failed_tracks_to_retry self current_tracks
                in if to_retry = [] then (self, h')
                   else af_process_all env to_retry
                          (self\<lparr>failed_tracks := failed_tracks self - set (map tr_id to_retry)\<rparr>, h')))"

definition cleanup_processed_tracks :: "af_watcher \<Rightarrow> af_watcher" where
  "cleanup_processed_tracks self =
     (let self = (if 1000 < card (af_processed_tracks self)
                  then self\<lparr>af_processed_tracks := {}\<rparr> else self);
          self = (if 100 < card (failed_tracks self)
                  then self\<lparr>failed_tracks := {}\<rparr> else self)
      in self)"


section \<open>Concrete environments\<close>

text \<open>
  A playlist of one track, and collaborators with fixed answers, on which the theorems
  below are evaluated.
\<close>

definition song :: spotify_track where
  "song = \<lparr>ti_id = ''t1'', ti_name = ''Song'', ti_artists = [''Ann'', ''Bob''],
           ti_album = ''Album'', ti_duration_ms = 185000, ti_uri = ''spotify:track:t1''\<rparr>"

definition song_data :: track_data where
  "song_data = \<lparr>track_info = song, added_at = ''2024-01-01'', playlist_position = 0\<rparr>"

definition one_page :: "playlist_item list list" where
  "one_page = [[\<lparr>item_track = Some song, item_added_at = ''2024-01-01''\<rparr>]]"

definition connected :: watcher where
  "connected = \<lparr>spotify_client = Some SpotifyClient, processed_tracks = {}\<rparr>"

definition disconnected :: watcher where
  "disconnected = \<lparr>spotify_client = None, processed_tracks = {}\<rparr>"

text \<open>Every download fails.\<close>

definition env_no_download :: spotify_env where
  "env_no_download =
     \<lparr>format_search_query = ti_name,
      playlist_pages = (\<lambda>h. Some one_page),
      remove_ok = (\<lambda>h track_uri. True),
      download_result = (\<lambda>h query filename. None)\<rparr>"

text \<open>Every download succeeds and every removal fails.\<close>

definition env_no_removal :: spotify_env where
  "env_no_removal =
     \<lparr>format_search_query = ti_name,
      playlist_pages = (\<lambda>h. Some one_page),
      remove_ok = (\<lambda>h track_uri. False),
      download_result = (\<lambda>h query filename. Some (''downloads/'' @ filename @ ''.mp3''))\<rparr>"

definition af_connected :: af_watcher where
  "af_connected = \<lparr>af_spotify_client = Some SpotifyClient, last_check = None,
                    af_processed_tracks = {}, failed_tracks = {}\<rparr>"

definition af_song :: track where
  "af_song = extract_track_info song"

definition af_env_no_download :: af_env where
  "af_env_no_download =
     \<lparr>af_format_search_query = (\<lambda>artist title album. artist @ '' - '' @ title),
      af_playlist_pages = (\<lambda>h. Some one_page),
      af_remove_ok = (\<lambda>h track_uri. True),
      af_download_result = (\<lambda>h query. None),
      af_now = (\<lambda>h. 0)\<rparr>"

definition af_env_no_removal :: af_env where
  "af_env_no_removal =
     \<lparr>af_format_search_query = (\<lambda>artist title album. artist @ '' - '' @ title),
      af_playlist_pages = (\<lambda>h. Some one_page),
      af_remove_ok = (\<lambda>h track_uri. False),
      af_download_result = (\<lambda>h query. Some (''downloads/'' @ query @ ''.mp3'')),
      af_now = (\<lambda>h. 0)\<rparr>"

text \<open>
  A playlist that lists the same track twice, and a downloader that fails on the first
  attempt for a query and succeeds on every later one.
\<close>

definition listed_twice :: "playlist_item list list" where
  "listed_twice = [[\<lparr>item_track = Some song, item_added_at = ''2024-01-01''\<rparr>,
                    \<lparr>item_track = Some song, item_added_at = ''2024-01-02''\<rparr>]]"

definition af_env_second_try :: af_env where
  "af_env_second_try =
     \<lparr>af_format_search_query = (\<lambda>artist title album. artist @ '' - '' @ title),
      af_playlist_pages = (\<lambda>h. Some listed_twice),
      af_remove_ok = (\<lambda>h track_uri. True),
      af_download_result =
        (\<lambda>h query. if AfSearchAndDownload query \<in> set h
                    then Some (''downloads/'' @ query @ ''.mp3'') else None),
      af_now = (\<lambda>h. 0)\<rparr>"

text \<open>A watcher that has recorded the one track of the playlist as failed.\<close>

definition af_one_failed :: af_watcher where
  "af_one_failed = \<lparr>af_spotify_client = Some SpotifyClient, last_check = None,
                     af_processed_tracks = {}, failed_tracks = {''t1''}\<rparr>"

definition af_other_song :: track where
  "af_other_song = \<lparr>tr_title = ''Other'', tr_artist = ''Cy'', tr_album = ''Album'',
                     tr_duration = ''2:10'', tr_id = ''t2'', tr_uri = ''spotify:track:t2''\<rparr>"

text \<open>
  Media-fetch collaborators: one whose searches return nothing, and one whose plain
  search returns nothing while the search with \<open>audio\<close> finds an entry that downloads
  to \<open>Ann - Song.mp3\<close>.
\<close>

definition ydl_no_results :: ydl_env where
  "ydl_no_results =
     \<lparr>download_path = ''downloads'',
      extract_info_result = (\<lambda>h url. Info []),
      download_ok = (\<lambda>h outtmpl url. True),
      directory = (\<lambda>h. Some []),
      clock = (\<lambda>h. 1000)\<rparr>"

definition found_entry :: entry where
  "found_entry = \<lparr>entry_title = ''Song (Official Video)'', webpage_url = ''https://yt/1'',
                   formats = [Some ''none'', Some ''opus'']\<rparr>"

definition ydl_second_variant :: ydl_env where
  "ydl_second_variant =
     \<lparr>download_path = ''downloads'',
      extract_info_result =
        (\<lambda>h url. if url = ''ytsearch1:Ann - Song audio'' then Info [found_entry] else Info []),
      download_ok = (\<lambda>h outtmpl url. True),
      directory =
        (\<lambda>h. if h = [] then Some []
             else Some [\<lparr>file_name = ''Ann - Song.mp3'', is_file = True, st_mtime = 990\<rparr>]),
      clock = (\<lambda>h. 1000)\<rparr>"

definition af_ydl_no_results :: af_ydl_env where
  "af_ydl_no_results =
     \<lparr>af_download_path = ''downloads'',
      af_extract_info_result = (\<lambda>h url. AfInfo []),
      af_downloaded_files = (\<lambda>h outtmpl url. Some [])\<rparr>"

section \<open>Theorems: matches are never empty\<close>

text \<open>
  A sequence that holds a single-character item consumes at least one character when
  it matches. Every pattern of the program is of this kind, so the branch of
  \<open>re_sub_from\<close> for a match that consumes nothing is never taken.
\<close>

lemma match_here_suffix:
  "match_here ic p bol s = Some t \<Longrightarrow> length t \<le> length s"
  by (induction ic p bol s arbitrary: t rule: match_here.induct)
     (auto split: if_splits option.splits dest: le_SucI)

lemma match_here_consumes:
  "One a \<in> set p \<Longrightarrow> match_here ic p bol s = Some t \<Longrightarrow> length t < length s"
proof (induction ic p bol s arbitrary: t rule: match_here.induct)
  case (5 ic b r bol c s)
  then have "match_here ic r False s = Some t" by (simp split: if_splits)
  then have "length t \<le> length s" by (rule match_here_suffix)
  then show ?case by simp
next
  case (7 ic b r bol c s)
  then show ?case
    by (auto split: if_splits option.splits dest: less_SucI)
qed (auto split: if_splits)

lemma match_alt_consumes:
  "\<forall>alt \<in> set p. \<exists>a. One a \<in> set alt \<Longrightarrow> match_alt ic p bol s = Some t \<Longrightarrow>
     length t < length s"
  by (induction p) (auto split: option.splits dest: match_here_consumes)

section \<open>Theorems: \<open>clean_track_title\<close>\<close>

lemma strip_Nil: "strip [] = []"
  by (simp add: strip_def lstrip_def rstrip_def)

text \<open>
  C6, as the code has it. The length that decides is the one after trimming whitespace:
  a title whose trimmed form has at least 3 characters is cleaned to at least 3
  characters, and when the cleaning leaves fewer than 3 characters (once trimmed) the
  result is the original title, trimmed.
\<close>

theorem clean_track_title_keeps_three:
  "(3 \<le> length (strip title) \<longrightarrow> 3 \<le> length (clean_track_title title)) \<and>
   (title \<noteq> [] \<and> length (strip (cleaned_before_check title)) < 3
      \<longrightarrow> clean_track_title title = strip title)"
  by (auto simp: clean_track_title_def Let_def strip_Nil)

theorem clean_track_title_keeps_three_witness:
  "3 \<le> length (strip ''[HD]'') \<and> 3 \<le> length (clean_track_title ''[HD]'') \<and>
   ''[HD]'' \<noteq> [] \<and> length (strip (cleaned_before_check ''[HD]'')) < 3 \<and>
   clean_track_title ''[HD]'' = strip ''[HD]''"
proof -
  have a: "3 \<le> length (strip ''[HD]'')" by code_simp
  have b: "''[HD]'' \<noteq> [] \<and> length (strip (cleaned_before_check ''[HD]'')) < 3" by code_simp
  from clean_track_title_keeps_three [of "''[HD]''"] a b show ?thesis by blast
qed

text \<open>
  C6 as stated fails: the title of two spaces and an \<open>a\<close> has length 3 and is cleaned to
  a single character, because the original title is trimmed when the code falls back to it.
\<close>

theorem clean_track_title_short_counterexample:
  "3 \<le> length ''  a'' \<and> length (clean_track_title ''  a'') < 3"
  by code_simp

section \<open>Theorems: cleaning a title twice\<close>

subsection \<open>A pattern with a required character\<close>








lemma patterns_to_remove_special:
  "\<forall>p \<in> set patterns_to_remove. \<exists>l \<in> set ''[(-:''. One (Lit l) \<in> set p"
  by code_simp

lemma patterns_to_remove_consume:
  "p \<in> set patterns_to_remove \<Longrightarrow> match_alt True [p] bol s = Some t \<Longrightarrow> length t < length s"
proof -
  assume p: "p \<in> set patterns_to_remove" and m: "match_alt True [p] bol s = Some t"
  from p patterns_to_remove_special obtain l where "One (Lit l) \<in> set p" by blast
  then have "\<forall>alt \<in> set [p]. \<exists>a. One a \<in> set alt" by auto
  from this m show ?thesis by (rule match_alt_consumes)
qed



subsection \<open>Collapsing whitespace and trimming\<close>






















subsection \<open>Titles without brackets, parentheses, dashes and colons\<close>







text \<open>
  A title of one space fails too: it is cleaned to the empty string, and the empty
  string to \<open>Unknown Track\<close>.
\<close>

lemma clean_track_title_blank_twice:
  "clean_track_title (clean_track_title '' '') \<noteq> clean_track_title '' ''"
  by code_simp

section \<open>Theorems: the downloader of \<open>src/app\<close>\<close>

text \<open>
  C9: the file that \<open>_find_downloaded_file\<close> resolves does not depend on the title it is
  given. For one listing of the output directory and one clock reading, any two titles
  give the same result.
\<close>

theorem find_downloaded_file_ignores_title:
  "find_downloaded_file listing now title1 = find_downloaded_file listing now title2"
  by (simp add: find_downloaded_file_def)

text \<open>
  When no file can be resolved after a download, every attempt is a miss and the whole
  cascade fails: a failed resolution is a failed download for the watcher.
\<close>

lemma attempt_unresolved:
  "\<forall>h' name. find_downloaded_file (directory env h') (clock env h') name = None \<Longrightarrow>
     fst (attempt env h pf u) = None"
  by (simp add: attempt_def Let_def split: info_result.split list.split option.split)

lemma try_variations_unresolved:
  "\<forall>h' name. find_downloaded_file (directory env h') (clock env h') name = None \<Longrightarrow>
     fst (try_variations env h pf us) = None"
proof (induction us arbitrary: h)
  case Nil
  then show ?case by simp
next
  case (Cons u us)
  obtain r h1 where a: "attempt env h pf u = (r, h1)"
    by (cases "attempt env h pf u") auto
  have "r = None" using attempt_unresolved [OF Cons.prems, of h pf u] a by simp
  with a Cons show ?case by simp
qed

lemma search_and_download_unresolved:
  "\<forall>h' name. find_downloaded_file (directory env h') (clock env h') name = None \<Longrightarrow>
     fst (search_and_download env h q pf) = None"
  unfolding search_and_download_def by (rule try_variations_unresolved)

section \<open>Theorems: the watcher of \<open>src/app\<close>\<close>

text \<open>
  C10: without a catalog client \<open>sync_playlist\<close> returns the all-zero statistics, leaves
  the watcher as it was and calls no collaborator.
\<close>

theorem sync_playlist_without_client:
  "spotify_client self = None \<Longrightarrow>
     sync_playlist env self h = (\<lparr>new_tracks = 0, downloaded = 0, failed = 0\<rparr>, self, h)"
  by (simp add: sync_playlist_def)

theorem sync_playlist_without_client_witness:
  "spotify_client disconnected = None \<and>
   sync_playlist env_no_download disconnected [] =
     (\<lparr>new_tracks = 0, downloaded = 0, failed = 0\<rparr>, disconnected, [])"
proof -
  have a: "spotify_client disconnected = None" by (simp add: disconnected_def)
  from a sync_playlist_without_client [OF a, of env_no_download "[]"] show ?thesis by simp
qed

section \<open>Theorems: download attempts of a sync\<close>












section \<open>Theorems: what a failure records\<close>

lemma get_new_tracks_excludes_processed:
  "td \<in> set (fst (get_new_tracks env self h)) \<Longrightarrow> ti_id (track_info td) \<notin> processed_tracks self"
  by (auto simp: get_new_tracks_def split: prod.splits)

text \<open>
  C1, as the code has it. When the download of a track fails, \<open>process_track\<close> returns
  \<open>False\<close> and records the id so that the next poll does not take the track as new. The
  watcher of \<open>src/audio_fetcher\<close> adds the id to \<open>failed_tracks\<close> and leaves
  \<open>processed_tracks\<close> as it was. The watcher of \<open>src/app\<close> has no set of failures: it adds
  the id to \<open>processed_tracks\<close>, and its sync counts the track under \<open>failed\<close>.
\<close>

theorem failed_download_is_recorded:
  "(af_download_result aenv ah (af_search_query aenv t) = None \<longrightarrow>
      af_process_track aenv aself ah t =
        (False, aself\<lparr>failed_tracks := insert (tr_id t) (failed_tracks aself)\<rparr>,
         ah @ [AfSearchAndDownload (af_search_query aenv t)])
      \<and> t \<notin> set (af_new_tracks
                     (aself\<lparr>failed_tracks := insert (tr_id t) (failed_tracks aself)\<rparr>) tracks))
   \<and>
   (download_result env h (format_search_query env (track_info td))
       (spotify_filename (track_info td)) = None \<longrightarrow>
      process_track env self h td =
        (False, self\<lparr>processed_tracks := insert (ti_id (track_info td)) (processed_tracks self)\<rparr>,
         h @ [SearchAndDownload (format_search_query env (track_info td))
                (spotify_filename (track_info td))])
      \<and> process_new_tracks env [td] (stats, self, h) =
          (stats\<lparr>failed := failed stats + 1\<rparr>,
           self\<lparr>processed_tracks := insert (ti_id (track_info td)) (processed_tracks self)\<rparr>,
           h @ [SearchAndDownload (format_search_query env (track_info td))
                  (spotify_filename (track_info td))])
      \<and> td \<notin> set (fst (get_new_tracks env'
                         (self\<lparr>processed_tracks := insert (ti_id (track_info td)) (processed_tracks self)\<rparr>)
                         h')))"
proof (intro conjI impI)
  assume a: "af_download_result aenv ah (af_search_query aenv t) = None"
  then show "af_process_track aenv aself ah t =
        (False, aself\<lparr>failed_tracks := insert (tr_id t) (failed_tracks aself)\<rparr>,
         ah @ [AfSearchAndDownload (af_search_query aenv t)])"
    by (simp add: af_process_track_def Let_def)
  show "t \<notin> set (af_new_tracks
                     (aself\<lparr>failed_tracks := insert (tr_id t) (failed_tracks aself)\<rparr>) tracks)"
    by (simp add: af_new_tracks_def)
next
  assume b: "download_result env h (format_search_query env (track_info td))
       (spotify_filename (track_info td)) = None"
  then show p: "process_track env self h td =
        (False, self\<lparr>processed_tracks := insert (ti_id (track_info td)) (processed_tracks self)\<rparr>,
         h @ [SearchAndDownload (format_search_query env (track_info td))
                (spotify_filename (track_info td))])"
    by (simp add: process_track_def Let_def)
  then show "process_new_tracks env [td] (stats, self, h) =
          (stats\<lparr>failed := failed stats + 1\<rparr>,
           self\<lparr>processed_tracks := insert (ti_id (track_info td)) (processed_tracks self)\<rparr>,
           h @ [SearchAndDownload (format_search_query env (track_info td))
                  (spotify_filename (track_info td))])"
    by simp
  show "td \<notin> set (fst (get_new_tracks env'
                         (self\<lparr>processed_tracks := insert (ti_id (track_info td)) (processed_tracks self)\<rparr>)
                         h'))"
    using get_new_tracks_excludes_processed by fastforce
qed

theorem failed_download_is_recorded_witness:
  "af_download_result af_env_no_download [] (af_search_query af_env_no_download af_song) = None \<and>
   download_result env_no_download [] (format_search_query env_no_download (track_info song_data))
       (spotify_filename (track_info song_data)) = None \<and>
   fst (af_process_track af_env_no_download af_connected [] af_song) = False \<and>
   fst (process_track env_no_download connected [] song_data) = False"
proof -
  have a: "af_download_result af_env_no_download [] (af_search_query af_env_no_download af_song) = None"
    by (simp add: af_env_no_download_def)
  have b: "download_result env_no_download [] (format_search_query env_no_download (track_info song_data))
       (spotify_filename (track_info song_data)) = None"
    by (simp add: env_no_download_def)
  from a b failed_download_is_recorded
         [of af_env_no_download "[]" af_song af_connected "[]" env_no_download "[]" song_data connected]
  show ?thesis by simp
qed

text \<open>
  C1 as stated fails on \<open>src/app\<close>: a sync whose only download fails reports
  \<open>failed = 1\<close> and leaves the id of the track in \<open>processed_tracks\<close>.
\<close>

theorem failed_download_processed_counterexample:
  "download_result env_no_download [PlaylistTracks] ''Song'' ''Ann, Bob - Song'' = None
   \<and> sync_playlist env_no_download connected [] =
     (\<lparr>new_tracks = 1, downloaded = 0, failed = 1\<rparr>,
      connected\<lparr>processed_tracks := {''t1''}\<rparr>,
      [PlaylistTracks, SearchAndDownload ''Song'' ''Ann, Bob - Song''])"
  by (simp add: sync_playlist_def get_new_tracks_def get_playlist_tracks_def process_track_def
        env_no_download_def connected_def one_page_def song_def spotify_filename_def Let_def)

text \<open>
  C2, as the code has it. When the download succeeds and the removal from the playlist
  fails, the watcher of \<open>src/audio_fetcher\<close> still adds the id to
  \<open>processed_tracks\<close> and returns \<open>True\<close>, so the track is not new at the next fetch. The
  watcher of \<open>src/app\<close> returns \<open>False\<close> and leaves its state as it was, and its
  sync counts the track under \<open>failed\<close>.
\<close>

theorem removal_failure_after_download:
  "(af_download_result aenv ah (af_search_query aenv t) = Some path
      \<and> \<not> fst (af_remove_track_from_playlist aenv aself
                  (ah @ [AfSearchAndDownload (af_search_query aenv t)]) (tr_uri t)) \<longrightarrow>
      fst (af_process_track aenv aself ah t) = True
      \<and> fst (snd (af_process_track aenv aself ah t)) =
          aself\<lparr>af_processed_tracks := insert (tr_id t) (af_processed_tracks aself)\<rparr>
      \<and> t \<notin> set (af_new_tracks (fst (snd (af_process_track aenv aself ah t))) tracks))
   \<and>
   (download_result env h (format_search_query env (track_info td))
       (spotify_filename (track_info td)) = Some path
      \<and> \<not> fst (remove_track_from_playlist env self
                  (h @ [SearchAndDownload (format_search_query env (track_info td))
                          (spotify_filename (track_info td))]) (ti_id (track_info td))) \<longrightarrow>
      fst (process_track env self h td) = False
      \<and> fst (snd (process_track env self h td)) = self
      \<and> fst (process_new_tracks env [td] (stats, self, h)) = stats\<lparr>failed := failed stats + 1\<rparr>)"
  by (auto simp: af_process_track_def process_track_def Let_def af_new_tracks_def
           split: prod.splits bool.splits)

theorem removal_failure_after_download_witness:
  "af_download_result af_env_no_removal [] (af_search_query af_env_no_removal af_song)
     = Some ''downloads/Ann, Bob - Song.mp3''
   \<and> \<not> fst (af_remove_track_from_playlist af_env_no_removal af_connected
               [AfSearchAndDownload (af_search_query af_env_no_removal af_song)] (tr_uri af_song))
   \<and> download_result env_no_removal [] (format_search_query env_no_removal (track_info song_data))
       (spotify_filename (track_info song_data)) = Some ''downloads/Ann, Bob - Song.mp3''
   \<and> \<not> fst (remove_track_from_playlist env_no_removal connected
               [SearchAndDownload (format_search_query env_no_removal (track_info song_data))
                  (spotify_filename (track_info song_data))] (ti_id (track_info song_data)))
   \<and> fst (af_process_track af_env_no_removal af_connected [] af_song) = True
   \<and> fst (process_track env_no_removal connected [] song_data) = False"
proof -
  have a: "af_download_result af_env_no_removal [] (af_search_query af_env_no_removal af_song)
     = Some ''downloads/Ann, Bob - Song.mp3''"
    by (simp add: af_env_no_removal_def af_search_query_def af_song_def extract_track_info_def
          song_def)
  have b: "\<not> fst (af_remove_track_from_playlist af_env_no_removal af_connected
               [AfSearchAndDownload (af_search_query af_env_no_removal af_song)] (tr_uri af_song))"
    by (simp add: af_remove_track_from_playlist_def af_env_no_removal_def af_connected_def)
  have c: "download_result env_no_removal [] (format_search_query env_no_removal (track_info song_data))
       (spotify_filename (track_info song_data)) = Some ''downloads/Ann, Bob - Song.mp3''"
    by (simp add: env_no_removal_def spotify_filename_def song_data_def song_def)
  have d: "\<not> fst (remove_track_from_playlist env_no_removal connected
               [SearchAndDownload (format_search_query env_no_removal (track_info song_data))
                  (spotify_filename (track_info song_data))] (ti_id (track_info song_data)))"
    by (simp add: remove_track_from_playlist_def env_no_removal_def connected_def)
  from a b c d removal_failure_after_download
      [where aenv = af_env_no_removal and ah = "[]" and t = af_song
         and path = "''downloads/Ann, Bob - Song.mp3''" and aself = af_connected
         and env = env_no_removal and h = "[]" and td = song_data and self = connected]
  show ?thesis by simp
qed

text \<open>
  C2 as stated fails on \<open>src/app\<close>: the download succeeds, the removal fails, the sync
  counts the track as failed and its id is not in \<open>processed_tracks\<close> afterwards.
\<close>

theorem removal_failure_unprocessed_counterexample:
  "download_result env_no_removal [PlaylistTracks] ''Song'' ''Ann, Bob - Song''
     = Some ''downloads/Ann, Bob - Song.mp3''
   \<and> remove_ok env_no_removal
         [PlaylistTracks, SearchAndDownload ''Song'' ''Ann, Bob - Song''] ''spotify:track:t1'' = False
   \<and> sync_playlist env_no_removal connected [] =
     (\<lparr>new_tracks = 1, downloaded = 0, failed = 1\<rparr>,
      connected,
      [PlaylistTracks, SearchAndDownload ''Song'' ''Ann, Bob - Song'',
       PlaylistRemove ''spotify:track:t1''])
   \<and> ''t1'' \<notin> processed_tracks connected"
  by (simp add: sync_playlist_def get_new_tracks_def get_playlist_tracks_def process_track_def
        remove_track_from_playlist_def
        env_no_removal_def connected_def one_page_def song_def spotify_filename_def Let_def)

section \<open>Theorems: the two sets of \<open>src/audio_fetcher\<close>\<close>

lemma af_process_track_sets:
  "af_process_track env self h t = (ok, self', h') \<Longrightarrow>
     (af_processed_tracks self' = insert (tr_id t) (af_processed_tracks self)
        \<and> failed_tracks self' = failed_tracks self)
     \<or> (af_processed_tracks self' = af_processed_tracks self
        \<and> failed_tracks self' = insert (tr_id t) (failed_tracks self))"
  by (auto simp: af_process_track_def Let_def split: option.splits prod.splits bool.splits)

lemma af_process_all_sets:
  assumes "distinct (map tr_id ts)"
      and "tr_id ` set ts \<inter> (af_processed_tracks self \<union> failed_tracks self) = {}"
      and "af_processed_tracks self \<inter> failed_tracks self = {}"
      and "af_process_all env ts (self, h) = (self', h')"
  shows "af_processed_tracks self' \<inter> failed_tracks self' = {}
         \<and> af_processed_tracks self' \<union> failed_tracks self'
             = af_processed_tracks self \<union> failed_tracks self \<union> tr_id ` set ts"
  using assms
proof (induction ts arbitrary: self h)
  case Nil
  then show ?case by simp
next
  case (Cons t ts)
  obtain ok self1 h1 where p: "af_process_track env self h t = (ok, self1, h1)"
    by (cases "af_process_track env self h t") auto
  from Cons.prems(4) p have rest: "af_process_all env ts (self1, h1) = (self', h')" by simp
  from af_process_track_sets [OF p]
  have sets: "af_processed_tracks self1 \<union> failed_tracks self1
                = insert (tr_id t) (af_processed_tracks self \<union> failed_tracks self)"
    by auto
  have fresh: "tr_id t \<notin> af_processed_tracks self \<union> failed_tracks self"
    using Cons.prems(2) by auto
  have d1: "af_processed_tracks self1 \<inter> failed_tracks self1 = {}"
    using af_process_track_sets [OF p] Cons.prems(3) fresh by auto
  have d2: "tr_id ` set ts \<inter> (af_processed_tracks self1 \<union> failed_tracks self1) = {}"
    using Cons.prems(1,2) sets by auto
  have d3: "distinct (map tr_id ts)" using Cons.prems(1) by simp
  from Cons.IH [OF d3 d2 d1 rest] sets show ?case by auto
qed

lemma af_new_tracks_fresh:
  "tr_id ` set (af_new_tracks self tracks) \<inter> (af_processed_tracks self \<union> failed_tracks self) = {}"
  by (auto simp: af_new_tracks_def)

lemma check_playlist_disjoint:
  assumes "af_processed_tracks self \<inter> failed_tracks self = {}"
      and "distinct (map tr_id (fst (af_get_playlist_tracks env self h)))"
  shows "af_processed_tracks (fst (check_playlist_for_new_tracks env self h))
           \<inter> failed_tracks (fst (check_playlist_for_new_tracks env self h)) = {}"
proof -
  obtain tracks h1 where g: "af_get_playlist_tracks env self h = (tracks, h1)"
    by (cases "af_get_playlist_tracks env self h") auto
  obtain self2 h2 where a: "af_process_all env (af_new_tracks self tracks) (self, h1) = (self2, h2)"
    by (cases "af_process_all env (af_new_tracks self tracks) (self, h1)") auto
  have "distinct (map tr_id (af_new_tracks self tracks))"
    using assms(2) g by (simp add: af_new_tracks_def distinct_map_filter)
  from af_process_all_sets [OF this af_new_tracks_fresh assms(1) a]
  have "af_processed_tracks self2 \<inter> failed_tracks self2 = {}" by simp
  then show ?thesis
    using assms(1) g a by (simp add: check_playlist_for_new_tracks_def Let_def)
qed

lemma retry_failed_tracks_sets:
  assumes "af_processed_tracks self \<inter> failed_tracks self = {}"
      and "distinct (map tr_id (fst (af_get_playlist_tracks env self h)))"
  shows "af_processed_tracks (fst (retry_failed_tracks env self h))
           \<inter> failed_tracks (fst (retry_failed_tracks env self h)) = {}
         \<and> (\<forall>t \<in> set (failed_tracks_to_retry self (fst (af_get_playlist_tracks env self h))).
               tr_id t \<notin> af_processed_tracks self
               \<and> (tr_id t \<in> af_processed_tracks (fst (retry_failed_tracks env self h))
                    \<longleftrightarrow> tr_id t \<notin> failed_tracks (fst (retry_failed_tracks env self h))))"
proof -
  obtain tracks h1 where g: "af_get_playlist_tracks env self h = (tracks, h1)"
    by (cases "af_get_playlist_tracks env self h") auto
  let ?ts = "failed_tracks_to_retry self tracks"
  let ?s0 = "self\<lparr>failed_tracks := failed_tracks self - set (map tr_id ?ts)\<rparr>"
  obtain self2 h2 where a: "af_process_all env ?ts (?s0, h1) = (self2, h2)"
    by (cases "af_process_all env ?ts (?s0, h1)") auto
  have in_failed: "\<forall>t \<in> set ?ts. tr_id t \<in> failed_tracks self"
    by (auto simp: failed_tracks_to_retry_def Let_def)
  have not_proc: "\<forall>t \<in> set ?ts. tr_id t \<notin> af_processed_tracks self"
    using in_failed assms(1) by auto
  have d: "distinct (map tr_id ?ts)"
    using assms(2) g by (simp add: failed_tracks_to_retry_def Let_def distinct_map_filter)
  have f: "tr_id ` set ?ts \<inter> (af_processed_tracks ?s0 \<union> failed_tracks ?s0) = {}"
    using not_proc by auto
  have dj: "af_processed_tracks ?s0 \<inter> failed_tracks ?s0 = {}"
    using assms(1) by auto
  from af_process_all_sets [OF d f dj a]
  have r: "af_processed_tracks self2 \<inter> failed_tracks self2 = {}"
     and u: "af_processed_tracks self2 \<union> failed_tracks self2
             = af_processed_tracks ?s0 \<union> failed_tracks ?s0 \<union> tr_id ` set ?ts"
    by simp_all
  show ?thesis
  proof (cases "failed_tracks self = {} \<or> ?ts = []")
    case True
    then have "fst (retry_failed_tracks env self h) = self"
      using g by (auto simp: retry_failed_tracks_def Let_def)
    moreover have "?ts = []"
      using True by (auto simp: failed_tracks_to_retry_def Let_def)
    ultimately show ?thesis using assms(1) g by simp
  next
    case False
    then have e: "fst (retry_failed_tracks env self h) = self2"
      using g a by (simp add: retry_failed_tracks_def Let_def)
    have "\<forall>t \<in> set ?ts. tr_id t \<in> af_processed_tracks self2 \<union> failed_tracks self2"
      using u by auto
    with r have "\<forall>t \<in> set ?ts. (tr_id t \<in> af_processed_tracks self2 \<longleftrightarrow> tr_id t \<notin> failed_tracks self2)"
      by auto
    with r not_proc e g show ?thesis by simp
  qed
qed

lemma cleanup_disjoint:
  "af_processed_tracks self \<inter> failed_tracks self = {} \<Longrightarrow>
   af_processed_tracks (cleanup_processed_tracks self)
     \<inter> failed_tracks (cleanup_processed_tracks self) = {}"
  by (simp add: cleanup_processed_tracks_def Let_def)

lemma fetched_one: "fst (af_get_playlist_tracks af_env_no_removal af_one_failed []) = [af_song]"
  by (simp add: af_get_playlist_tracks_def af_env_no_removal_def af_one_failed_def one_page_def
        af_song_def song_def)

text \<open>
  C5, as the code has it. Take a watcher whose two sets are disjoint. \<open>process_track\<close> on
  a track whose id is in neither set, and the eviction of \<open>cleanup_processed_tracks\<close>, leave
  them disjoint. When the playlist fetched lists no id twice, so do
  \<open>check_playlist_for_new_tracks\<close> and \<open>retry_failed_tracks\<close>; the latter reprocesses only
  ids that are not in \<open>processed_tracks\<close> and leaves each of them in exactly one set.
\<close>

theorem registry_sets_stay_disjoint:
  "af_processed_tracks self \<inter> failed_tracks self = {} \<longrightarrow>
     (distinct (map tr_id (fst (af_get_playlist_tracks env self h))) \<longrightarrow>
        af_processed_tracks (fst (check_playlist_for_new_tracks env self h))
          \<inter> failed_tracks (fst (check_playlist_for_new_tracks env self h)) = {}
        \<and> af_processed_tracks (fst (retry_failed_tracks env self h))
            \<inter> failed_tracks (fst (retry_failed_tracks env self h)) = {}
        \<and> (\<forall>t \<in> set (failed_tracks_to_retry self (fst (af_get_playlist_tracks env self h))).
              tr_id t \<notin> af_processed_tracks self
              \<and> (tr_id t \<in> af_processed_tracks (fst (retry_failed_tracks env self h))
                   \<longleftrightarrow> tr_id t \<notin> failed_tracks (fst (retry_failed_tracks env self h)))))
     \<and> (tr_id t \<notin> af_processed_tracks self \<union> failed_tracks self \<longrightarrow>
          af_processed_tracks (fst (snd (af_process_track env self h t)))
            \<inter> failed_tracks (fst (snd (af_process_track env self h t))) = {})
     \<and> af_processed_tracks (cleanup_processed_tracks self)
          \<inter> failed_tracks (cleanup_processed_tracks self) = {}"
proof (intro impI conjI)
  assume dj: "af_processed_tracks self \<inter> failed_tracks self = {}"
  show "af_processed_tracks (cleanup_processed_tracks self)
          \<inter> failed_tracks (cleanup_processed_tracks self) = {}"
    using dj by (rule cleanup_disjoint)
  {
    assume fresh: "tr_id t \<notin> af_processed_tracks self \<union> failed_tracks self"
    obtain ok self1 h1 where p: "af_process_track env self h t = (ok, self1, h1)"
      by (cases "af_process_track env self h t") auto
    from af_process_track_sets [OF p] dj fresh
    show "af_processed_tracks (fst (snd (af_process_track env self h t)))
            \<inter> failed_tracks (fst (snd (af_process_track env self h t))) = {}"
      using p by auto
  }
  {
    assume ds: "distinct (map tr_id (fst (af_get_playlist_tracks env self h)))"
    show "af_processed_tracks (fst (check_playlist_for_new_tracks env self h))
          \<inter> failed_tracks (fst (check_playlist_for_new_tracks env self h)) = {}"
      using dj ds by (rule check_playlist_disjoint)
    show "af_processed_tracks (fst (retry_failed_tracks env self h))
            \<inter> failed_tracks (fst (retry_failed_tracks env self h)) = {}"
      using retry_failed_tracks_sets [OF dj ds] by blast
    show "\<forall>t \<in> set (failed_tracks_to_retry self (fst (af_get_playlist_tracks env self h))).
              tr_id t \<notin> af_processed_tracks self
              \<and> (tr_id t \<in> af_processed_tracks (fst (retry_failed_tracks env self h))
                   \<longleftrightarrow> tr_id t \<notin> failed_tracks (fst (retry_failed_tracks env self h)))"
      using retry_failed_tracks_sets [OF dj ds] by blast
  }
qed

theorem registry_sets_stay_disjoint_witness:
  "af_processed_tracks af_one_failed \<inter> failed_tracks af_one_failed = {}
   \<and> distinct (map tr_id (fst (af_get_playlist_tracks af_env_no_removal af_one_failed [])))
   \<and> af_song \<in> set (failed_tracks_to_retry af_one_failed
                       (fst (af_get_playlist_tracks af_env_no_removal af_one_failed [])))
   \<and> tr_id af_other_song \<notin> af_processed_tracks af_one_failed \<union> failed_tracks af_one_failed
   \<and> af_processed_tracks (fst (retry_failed_tracks af_env_no_removal af_one_failed []))
        \<inter> failed_tracks (fst (retry_failed_tracks af_env_no_removal af_one_failed [])) = {}
   \<and> tr_id af_song \<notin> af_processed_tracks af_one_failed
   \<and> (tr_id af_song \<in> af_processed_tracks (fst (retry_failed_tracks af_env_no_removal af_one_failed []))
        \<longleftrightarrow> tr_id af_song \<notin> failed_tracks (fst (retry_failed_tracks af_env_no_removal af_one_failed [])))
   \<and> af_processed_tracks (fst (snd (af_process_track af_env_no_removal af_one_failed [] af_other_song)))
        \<inter> failed_tracks (fst (snd (af_process_track af_env_no_removal af_one_failed [] af_other_song))) = {}"
proof -
  have a: "af_processed_tracks af_one_failed \<inter> failed_tracks af_one_failed = {}"
    by (simp add: af_one_failed_def)
  have b: "distinct (map tr_id (fst (af_get_playlist_tracks af_env_no_removal af_one_failed [])))"
    by (simp add: fetched_one)
  have c: "af_song \<in> set (failed_tracks_to_retry af_one_failed
                       (fst (af_get_playlist_tracks af_env_no_removal af_one_failed [])))"
proof -
    have "tr_id af_song = ''t1''"
      by (simp add: af_song_def extract_track_info_def song_def)
    then show ?thesis
      unfolding fetched_one by (simp add: failed_tracks_to_retry_def af_one_failed_def)
  qed
  have d: "tr_id af_other_song \<notin> af_processed_tracks af_one_failed \<union> failed_tracks af_one_failed"
    by (simp add: af_other_song_def af_one_failed_def)
  from a b c d
    registry_sets_stay_disjoint
      [where self = af_one_failed and env = af_env_no_removal and h = "[]" and t = af_other_song]
  show ?thesis by blast
qed

text \<open>
  C5 as stated fails: the new tracks are chosen once, before any is processed, so a
  track that the playlist lists twice is processed twice. When its first download fails
  and its second succeeds, its id ends in both sets.
\<close>

theorem registry_both_sets_counterexample:
  "af_processed_tracks af_connected \<inter> failed_tracks af_connected = {}
   \<and> ''t1'' \<in> af_processed_tracks (fst (check_playlist_for_new_tracks af_env_second_try af_connected []))
   \<and> ''t1'' \<in> failed_tracks (fst (check_playlist_for_new_tracks af_env_second_try af_connected []))"
  by (simp add: check_playlist_for_new_tracks_def af_get_playlist_tracks_def af_new_tracks_def
        af_process_track_def af_remove_track_from_playlist_def af_search_query_def
        af_env_second_try_def af_connected_def listed_twice_def extract_track_info_def song_def Let_def)

section \<open>Theorems: the search cascade\<close>

lemma searches_append: "searches (h @ h') = searches h @ searches h'"
  by (induction h rule: searches.induct) simp_all

lemma attempt_searches:
  "searches (snd (attempt env h pf u)) = searches h @ [u]"
  by (simp add: attempt_def Let_def searches_append
           split: info_result.split list.split option.split)

lemma try_variations_cascade:
  "us \<noteq> [] \<Longrightarrow>
     \<exists>k hk. k < length us
       \<and> try_variations env h pf (take k us) = (None, hk)
       \<and> attempt env hk pf (us ! k) = try_variations env h pf us
       \<and> (fst (try_variations env h pf us) = None \<longrightarrow> Suc k = length us)
       \<and> searches (snd (try_variations env h pf us)) = searches h @ take (Suc k) us"
proof (induction us arbitrary: h)
  case Nil
  then show ?case by simp
next
  case (Cons u us)
  obtain r h1 where a: "attempt env h pf u = (r, h1)"
    by (cases "attempt env h pf u") auto
  have s1: "searches h1 = searches h @ [u]"
    using attempt_searches [of env h pf u] a by simp
  show ?case
  proof (cases "r = None \<and> us \<noteq> []")
    case False
    then have "try_variations env h pf (u # us) = (r, h1)"
      using a by (cases r) auto
    moreover have "r = None \<longrightarrow> us = []" using False by blast
    ultimately have
      "0 < length (u # us)
       \<and> try_variations env h pf (take 0 (u # us)) = (None, h)
       \<and> attempt env h pf ((u # us) ! 0) = try_variations env h pf (u # us)
       \<and> (fst (try_variations env h pf (u # us)) = None \<longrightarrow> Suc 0 = length (u # us))
       \<and> searches (snd (try_variations env h pf (u # us))) = searches h @ take (Suc 0) (u # us)"
      using a s1 by simp
    then show ?thesis by (intro exI [of _ 0] exI [of _ h])
  next
    case True
    then have t: "try_variations env h pf (u # us) = try_variations env h1 pf us"
      using a by simp
    from Cons.IH [of h1] True obtain k hk where k:
      "k < length us
       \<and> try_variations env h1 pf (take k us) = (None, hk)
       \<and> attempt env hk pf (us ! k) = try_variations env h1 pf us
       \<and> (fst (try_variations env h1 pf us) = None \<longrightarrow> Suc k = length us)
       \<and> searches (snd (try_variations env h1 pf us)) = searches h1 @ take (Suc k) us"
      by auto
    have
      "Suc k < length (u # us)
       \<and> try_variations env h pf (take (Suc k) (u # us)) = (None, hk)
       \<and> attempt env hk pf ((u # us) ! Suc k) = try_variations env h pf (u # us)
       \<and> (fst (try_variations env h pf (u # us)) = None \<longrightarrow> Suc (Suc k) = length (u # us))
       \<and> searches (snd (try_variations env h pf (u # us))) = searches h @ take (Suc (Suc k)) (u # us)"
      using k t a True s1 by simp
    then show ?thesis by (intro exI [of _ "Suc k"] exI [of _ hk])
  qed
qed

lemma str_nat_1: "str_nat (Suc 0) = ''1''"
  by code_simp

lemma af_search_and_download_sync_searches:
  "searches (snd (af_search_and_download_sync env h q n))
     = searches h @ [''ytsearch'' @ str_nat n @ '':'' @ q]"
  by (simp add: af_search_and_download_sync_def Let_def searches_append
           del: str_nat.simps
           split: af_info_result.split list.split option.split)

lemma af_search_and_download_searches:
  "searches (snd (af_search_and_download env h q)) = searches h @ [''ytsearch1:'' @ q]"
  using af_search_and_download_sync_searches [of env h q 1]
  by (simp add: af_search_and_download_def str_nat_1 del: str_nat.simps)

lemma search_and_download_no_results: "search_and_download ydl_no_results [] ''Ann - Song'' None =
   (None, [ExtractInfo ''ytsearch1:Ann - Song'', ExtractInfo ''ytsearch1:Ann - Song audio'',
           ExtractInfo ''ytsearch1:Ann - Song official'', ExtractInfo ''ytsearch1:Ann - Song music''])"
  by (simp add: search_and_download_def search_variations_def attempt_def ydl_no_results_def)

text \<open>
  An evaluation of the cascade: the plain search finds nothing, the search with
  \<open>audio\<close> finds an entry, the download is made and its file resolved; the two
  remaining variants are not tried.
\<close>

lemma search_and_download_second_variant:
  "search_and_download ydl_second_variant [] ''Ann - Song'' (Some ''Ann - Song'') =
     (Some ''downloads/Ann - Song.mp3'',
      [ExtractInfo ''ytsearch1:Ann - Song'', ExtractInfo ''ytsearch1:Ann - Song audio'',
       Download ''downloads/Ann - Song.%(ext)s'' ''https://yt/1''])"
  by code_simp

text \<open>
  C4, as the code has it. \<open>search_and_download\<close> of \<open>src/app\<close> has the four variants
  in the order plain, \<open>audio\<close>, \<open>official\<close>, \<open>music\<close>. For some \<open>k < 4\<close> the first
  \<open>k\<close> variants were tried and failed, the result is the outcome of the attempt on the
  next variant, the searches made are exactly those \<open>k + 1\<close> variants in order, and the
  result is a failure only when that attempt was the fourth. The downloader of
  \<open>src/audio_fetcher\<close> makes one search, with the plain query.
\<close>

theorem search_and_download_cascade:
  "search_variations q =
     [''ytsearch1:'' @ q, ''ytsearch1:'' @ q @ '' audio'',
      ''ytsearch1:'' @ q @ '' official'', ''ytsearch1:'' @ q @ '' music'']
   \<and> (\<exists>k hk. k < 4
         \<and> try_variations env h pf (take k (search_variations q)) = (None, hk)
         \<and> attempt env hk pf (search_variations q ! k) = search_and_download env h q pf
         \<and> (fst (search_and_download env h q pf) = None \<longrightarrow> k = 3)
         \<and> searches (snd (search_and_download env h q pf))
             = searches h @ take (Suc k) (search_variations q))
   \<and> searches (snd (af_search_and_download aenv ah q)) = searches ah @ [''ytsearch1:'' @ q]"
proof (intro conjI)
  show "search_variations q =
     [''ytsearch1:'' @ q, ''ytsearch1:'' @ q @ '' audio'',
      ''ytsearch1:'' @ q @ '' official'', ''ytsearch1:'' @ q @ '' music'']"
    by (simp add: search_variations_def)
  show "searches (snd (af_search_and_download aenv ah q)) = searches ah @ [''ytsearch1:'' @ q]"
    by (rule af_search_and_download_searches)
  have n: "search_variations q \<noteq> []" and l: "length (search_variations q) = 4"
    by (simp_all add: search_variations_def)
  from try_variations_cascade [OF n, of env h pf] obtain k hk where k:
    "k < length (search_variations q)
     \<and> try_variations env h pf (take k (search_variations q)) = (None, hk)
     \<and> attempt env hk pf (search_variations q ! k) = try_variations env h pf (search_variations q)
     \<and> (fst (try_variations env h pf (search_variations q)) = None
          \<longrightarrow> Suc k = length (search_variations q))
     \<and> searches (snd (try_variations env h pf (search_variations q)))
          = searches h @ take (Suc k) (search_variations q)"
    by auto
  have "k < 4
         \<and> try_variations env h pf (take k (search_variations q)) = (None, hk)
         \<and> attempt env hk pf (search_variations q ! k) = search_and_download env h q pf
         \<and> (fst (search_and_download env h q pf) = None \<longrightarrow> k = 3)
         \<and> searches (snd (search_and_download env h q pf))
             = searches h @ take (Suc k) (search_variations q)"
    using k l unfolding search_and_download_def by simp
  then show "\<exists>k hk. k < 4
         \<and> try_variations env h pf (take k (search_variations q)) = (None, hk)
         \<and> attempt env hk pf (search_variations q ! k) = search_and_download env h q pf
         \<and> (fst (search_and_download env h q pf) = None \<longrightarrow> k = 3)
         \<and> searches (snd (search_and_download env h q pf))
             = searches h @ take (Suc k) (search_variations q)"
    by (intro exI [of _ k] exI [of _ hk])
qed

theorem search_and_download_cascade_witness:
  "fst (search_and_download ydl_no_results [] ''Ann - Song'' None) = None
   \<and> searches (snd (search_and_download ydl_no_results [] ''Ann - Song'' None))
       = [''ytsearch1:Ann - Song'', ''ytsearch1:Ann - Song audio'',
          ''ytsearch1:Ann - Song official'', ''ytsearch1:Ann - Song music'']"
proof -
  have a: "fst (search_and_download ydl_no_results [] ''Ann - Song'' None) = None"
    by (simp add: search_and_download_no_results)
  have "\<exists>k hk. k < 4
         \<and> try_variations ydl_no_results [] None (take k (search_variations ''Ann - Song'')) = (None, hk)
         \<and> attempt ydl_no_results hk None (search_variations ''Ann - Song'' ! k)
             = search_and_download ydl_no_results [] ''Ann - Song'' None
         \<and> (fst (search_and_download ydl_no_results [] ''Ann - Song'' None) = None \<longrightarrow> k = 3)
         \<and> searches (snd (search_and_download ydl_no_results [] ''Ann - Song'' None))
             = searches [] @ take (Suc k) (search_variations ''Ann - Song'')"
    using search_and_download_cascade [of "''Ann - Song''" ydl_no_results "[]" None]
    by (rule conjunct1 [OF conjunct2])
  then obtain k where
    "fst (search_and_download ydl_no_results [] ''Ann - Song'' None) = None \<longrightarrow> k = 3"
    "searches (snd (search_and_download ydl_no_results [] ''Ann - Song'' None))
       = searches [] @ take (Suc k) (search_variations ''Ann - Song'')"
    by (elim exE conjE)
  with a show ?thesis by (simp add: search_variations_def)
qed

text \<open>
  C4 as stated fails on \<open>src/audio_fetcher\<close>: when the plain search returns nothing, the
  downloader reports failure after that single search.
\<close>

theorem af_single_search_counterexample:
  "af_search_and_download af_ydl_no_results [] ''Ann - Song''
     = (None, [ExtractInfo ''ytsearch1:Ann - Song''])"
  by (simp add: af_search_and_download_def af_search_and_download_sync_def af_ydl_no_results_def
        str_nat_1 del: str_nat.simps)

end
